theory Spec2Isabelle
  imports Complex_Main "HOL-Library.Word"
begin

section \<open>Data shared by the motion detector and the event store\<close>

text \<open>
  A camera frame is a numpy array of shape \<open>H \<times> W \<times> 3\<close> with 8-bit channels (BGR order):
  a list of rows of pixels. The grayscale images of the detector are lists of rows of
  8-bit values; the background model is a float32 array, whose finite values are
  rationals, so a float32 image is a list of rows of rationals.
\<close>

type_synonym uint8 = "8 word"
type_synonym pixel = "uint8 \<times> uint8 \<times> uint8"
type_synonym frame = "pixel list list"
type_synonym gray = "uint8 list list"
type_synonym fimage = "rat list list"
type_synonym bbox = "int \<times> int \<times> int \<times> int"
type_synonym contour = "(int \<times> int) list"

text \<open>
  \<open>datetime\<close> values are microseconds on the local clock. The exceptions that the two
  components can meet are values of \<open>exn\<close>.
\<close>

type_synonym datetime = int

datatype exn = CvError | OSError | ValueError | RuntimeError string

text \<open>
  Frames are mutable objects: \<open>cv2.rectangle\<close> and \<open>cv2.putText\<close> draw into the array
  they are given, and \<open>frame.copy()\<close> makes a new array. The heap maps a reference to
  the array it holds; \<open>next_ref\<close> is the first reference not yet allocated.
\<close>

type_synonym ref = nat

record heap =
  cells :: "ref \<Rightarrow> frame"
  next_ref :: ref

definition copy :: "heap \<Rightarrow> ref \<Rightarrow> ref \<times> heap" where
  "copy h r = (next_ref h, h\<lparr>cells := (cells h)(next_ref h := cells h r), next_ref := Suc (next_ref h)\<rparr>)"

definition store :: "heap \<Rightarrow> ref \<Rightarrow> frame \<Rightarrow> heap" where
  "store h r f = h\<lparr>cells := (cells h)(r := f)\<rparr>"

definition shape0 :: "'a list list \<Rightarrow> int" where
  "shape0 f = int (length f)"

definition shape1 :: "'a list list \<Rightarrow> int" where
  "shape1 f = (case f of [] \<Rightarrow> 0 | row # _ \<Rightarrow> int (length row))"

text \<open>
  The functions of OpenCV and of the Python standard library whose results depend on
  tables, on floating-point kernels or on the locale are parameters of the model. A
  function that can raise returns a sum. The drawing functions take the array and
  return the array as drawn: the caller of the model writes it back at the same
  reference, which is the in-place update of the library. \<open>cvFloor\<close> stands for the
  conversion of a number that does not fit in 32 bits, which the platform decides. The colour (0, 255, 0), the
  thickness 2 and the font are the same at every call and are not arguments here. All
  other functions only read the arrays they are given, the contract of the library.
\<close>

record lib =
  cvtColor :: "frame \<Rightarrow> exn + gray"
  GaussianBlur :: "gray \<Rightarrow> int \<Rightarrow> exn + gray"
  dilate :: "gray \<Rightarrow> int \<Rightarrow> exn + gray"
  findContours :: "gray \<Rightarrow> contour list"
  contourArea :: "contour \<Rightarrow> rat"
  boundingRect :: "contour \<Rightarrow> bbox"
  rectangle :: "frame \<Rightarrow> int \<times> int \<Rightarrow> int \<times> int \<Rightarrow> exn + frame"
  putText :: "frame \<Rightarrow> string \<Rightarrow> int \<times> int \<Rightarrow> exn + frame"
  accumulateWeighted :: "fimage \<Rightarrow> fimage \<Rightarrow> rat \<Rightarrow> exn + fimage"
  strftime :: "string \<Rightarrow> datetime \<Rightarrow> string"
  isoformat :: "datetime \<Rightarrow> string"
  strptime :: "string \<Rightarrow> datetime option"
  cvFloor :: "int \<Rightarrow> exn + int"

section \<open>The event store (src/utils/storage.py)\<close>

subsection \<open>Files and directories\<close>

text \<open>
  The images directory holds date buckets, the \<open>latest\<close> symbolic link and whatever
  else was put there. A bucket holds the image and metadata files by name. A symbolic
  link records whether it points to a directory, which is what \<open>is_dir\<close> reports for it.
\<close>

datatype json = JString string | JInt int | JObject "(string \<times> json) list"

datatype stored = ImageFile frame | JsonFile json

type_synonym bucket = "(string \<times> stored) list"

datatype entry = Directory bucket | RegularFile | Symlink bool

type_synonym images_dir = "(string \<times> entry) list"

fun is_dir :: "entry \<Rightarrow> bool" where
  "is_dir (Directory _) = True"
| "is_dir RegularFile = False"
| "is_dir (Symlink to_dir) = to_dir"

fun write_file :: "string \<Rightarrow> stored \<Rightarrow> bucket \<Rightarrow> bucket" where
  "write_file name f [] = [(name, f)]"
| "write_file name f ((n, g) # rest) =
     (if n = name then (n, f) # rest else (n, g) # write_file name f rest)"

fun write_in_bucket :: "string \<Rightarrow> string \<Rightarrow> stored \<Rightarrow> images_dir \<Rightarrow> images_dir option" where
  "write_in_bucket date name f [] = None"
| "write_in_bucket date name f ((n, e) # rest) =
     (if n = date then
        (case e of Directory files \<Rightarrow> Some ((n, Directory (write_file name f files)) # rest)
                 | _ \<Rightarrow> None)
      else map_option (\<lambda>rest'. (n, e) # rest') (write_in_bucket date name f rest))"

definition read_file :: "images_dir \<Rightarrow> string \<Rightarrow> string \<Rightarrow> stored option" where
  "read_file d date name =
     (case map_of d date of Some (Directory files) \<Rightarrow> map_of files name | _ \<Rightarrow> None)"

subsection \<open>The store and its operations\<close>

record image_storage =
  max_storage_bytes :: rat
  last_save_timestamp :: "datetime option"
  min_save_interval :: int

text \<open>The fields set by \<open>__init__\<close>; the creation of the directories is not part of it.\<close>

definition new_storage :: "rat \<Rightarrow> image_storage" where
  "new_storage max_storage_gb =
     \<lparr>max_storage_bytes = max_storage_gb * 1024 * 1024 * 1024,
      last_save_timestamp = None,
      min_save_interval = 10\<rparr>"

text \<open>
  \<open>_check_storage_space\<close>: \<open>free > max_storage_bytes * 0.1\<close>, on the free space that
  \<open>shutil.disk_usage\<close> reports.
\<close>

definition check_storage_space :: "image_storage \<Rightarrow> int \<Rightarrow> bool" where
  "check_storage_space s free \<longleftrightarrow> rat_of_int free > max_storage_bytes s * (1 / 10)"

text \<open>
  \<open>cleanup_old_files\<close>: the loop over \<open>iterdir()\<close>. An entry that is not a directory,
  or is named \<open>latest\<close>, or whose name \<open>strptime\<close> rejects, is skipped. The age of a
  bucket is the \<open>days\<close> field of the difference of two datetimes, which is floor
  division by one day. \<open>shutil.rmtree\<close> removes a real directory and raises
  \<open>OSError\<close> on a symbolic link; that exception leaves the loop and is logged by
  the outer handler, so the entries not yet visited stay.
\<close>

definition day_us :: int where
  "day_us = 86400000000"

definition age_days :: "datetime \<Rightarrow> datetime \<Rightarrow> int" where
  "age_days current_time dir_date = (current_time - dir_date) div day_us"

fun cleanup_loop :: "lib \<Rightarrow> datetime \<Rightarrow> int \<Rightarrow> images_dir \<Rightarrow> images_dir" where
  "cleanup_loop L current_time days_to_keep [] = []"
| "cleanup_loop L current_time days_to_keep ((name, e) # rest) =
     (if \<not> is_dir e \<or> name = ''latest'' then
        (name, e) # cleanup_loop L current_time days_to_keep rest
      else case strptime L name of
        None \<Rightarrow> (name, e) # cleanup_loop L current_time days_to_keep rest
      | Some dir_date \<Rightarrow>
          if age_days current_time dir_date > days_to_keep then
            (case e of
               Directory _ \<Rightarrow> cleanup_loop L current_time days_to_keep rest
             | _ \<Rightarrow> (name, e) # rest)
          else (name, e) # cleanup_loop L current_time days_to_keep rest)"

definition cleanup_old_files :: "lib \<Rightarrow> datetime \<Rightarrow> int \<Rightarrow> images_dir \<Rightarrow> images_dir" where
  "cleanup_old_files L current_time days_to_keep d = cleanup_loop L current_time days_to_keep d"

text \<open>
  What one call of \<open>save_detected_object\<close> reads from the world: the clock at each
  \<open>datetime.now()\<close>, the free space at each \<open>disk_usage\<close> (\<open>None\<close> when it raises),
  whether the encoder can write the image file and whether the metadata file can be
  written.
\<close>

record save_env =
  t_check :: datetime
  disk_free_1 :: "int option"
  t_cleanup :: datetime
  disk_free_2 :: "int option"
  t_id :: datetime
  t_meta :: datetime
  t_fname :: datetime
  t_date :: datetime
  t_text :: datetime
  imwrite_ok :: bool
  open_ok :: bool

datatype log_event = Info_Skipping | Info_Saved string string | Error_Failed exn

record save_result =
  returned :: bool
  logged :: log_event
  storage_after :: image_storage
  dir_after :: images_dir
  heap_after :: heap

definition failed :: "exn \<Rightarrow> image_storage \<Rightarrow> images_dir \<Rightarrow> heap \<Rightarrow> save_result" where
  "failed e s d h =
     \<lparr>returned = False, logged = Error_Failed e, storage_after = s, dir_after = d, heap_after = h\<rparr>"

definition rate_limited :: "image_storage \<Rightarrow> datetime \<Rightarrow> bool" where
  "rate_limited s current_time \<longleftrightarrow>
     (case last_save_timestamp s of
        None \<Rightarrow> False
      | Some t \<Rightarrow> current_time - t < min_save_interval s * 1000000)"

definition metadata :: "lib \<Rightarrow> save_env \<Rightarrow> string \<Rightarrow> frame \<Rightarrow> bbox \<Rightarrow> json" where
  "metadata L env object_id f b =
     (case b of (x, y, w, h) \<Rightarrow>
        JObject
          [(''object_id'', JString object_id),
           (''timestamp'', JString (isoformat L (t_meta env))),
           (''bbox'', JObject [(''x'', JInt x), (''y'', JInt y), (''width'', JInt w), (''height'', JInt h)]),
           (''frame_size'', JObject [(''width'', JInt (shape1 f)), (''height'', JInt (shape0 f))])])"

definition object_id_of :: "lib \<Rightarrow> save_env \<Rightarrow> string" where
  "object_id_of L env = strftime L ''%Y%m%d_%H%M%S_%f'' (t_id env)"

definition stem_of :: "lib \<Rightarrow> save_env \<Rightarrow> string" where
  "stem_of L env = strftime L ''%H-%M-%S'' (t_fname env) @ ''_object_'' @ object_id_of L env"

definition current_date_of :: "lib \<Rightarrow> save_env \<Rightarrow> string" where
  "current_date_of L env = strftime L ''%Y-%m-%d'' (t_date env)"

text \<open>
  \<open>cv2.imwrite\<close> raises on an empty image, returns \<open>False\<close> when the file cannot be
  written and \<open>True\<close> when it was; the caller below discards the returned value.
\<close>

definition imwrite :: "save_env \<Rightarrow> images_dir \<Rightarrow> string \<Rightarrow> string \<Rightarrow> frame \<Rightarrow> exn + (bool \<times> images_dir)" where
  "imwrite env d date name img =
     (if shape0 img = 0 \<or> shape1 img = 0 then Inl CvError
      else if \<not> imwrite_ok env then Inr (False, d)
      else case write_in_bucket date name (ImageFile img) d of
             None \<Rightarrow> Inr (False, d)
           | Some d' \<Rightarrow> Inr (True, d'))"

text \<open>\<open>open(metadata_path, 'w')\<close> with \<open>json.dump\<close>: raises \<open>OSError\<close> or writes the file.\<close>

definition dump_json :: "save_env \<Rightarrow> images_dir \<Rightarrow> string \<Rightarrow> string \<Rightarrow> json \<Rightarrow> exn + images_dir" where
  "dump_json env d date name j =
     (if \<not> open_ok env then Inl OSError
      else case write_in_bucket date name (JsonFile j) d of
             None \<Rightarrow> Inl OSError
           | Some d' \<Rightarrow> Inr d')"

text \<open>
  The part of \<open>save_detected_object\<close> after the quota check: identifier, metadata,
  path, the annotated copy, the two writes and the new timestamp.
\<close>

definition write_event ::
  "lib \<Rightarrow> save_env \<Rightarrow> image_storage \<Rightarrow> images_dir \<Rightarrow> heap \<Rightarrow> ref \<Rightarrow> bbox \<Rightarrow> save_result" where
  "write_event L env s d h fr b =
     (case b of (x, y, w, ht) \<Rightarrow>
      let object_id = object_id_of L env;
          meta = metadata L env object_id (cells h fr) b;
          date = current_date_of L env;
          stem = stem_of L env;
          (frame_with_box, h1) = copy h fr
      in case rectangle L (cells h1 frame_with_box) (x, y) (x + w, y + ht) of
           Inl e \<Rightarrow> failed e s d h1
         | Inr drawn \<Rightarrow>
             let h2 = store h1 frame_with_box drawn;
                 timestamp = strftime L ''%Y-%m-%d %H:%M:%S'' (t_text env)
             in case putText L (cells h2 frame_with_box) timestamp (10, 30) of
                  Inl e \<Rightarrow> failed e s d h2
                | Inr texted \<Rightarrow>
                    let h3 = store h2 frame_with_box texted
                    in case imwrite env d date (stem @ ''.jpg'') (cells h3 frame_with_box) of
                         Inl e \<Rightarrow> failed e s d h3
                       | Inr (_, d1) \<Rightarrow>
                           (case dump_json env d1 date (stem @ ''.json'') meta of
                              Inl e \<Rightarrow> failed e s d1 h3
                            | Inr d2 \<Rightarrow>
                                \<lparr>returned = True,
                                 logged = Info_Saved date (stem @ ''.jpg''),
                                 storage_after = s\<lparr>last_save_timestamp := Some (t_check env)\<rparr>,
                                 dir_after = d2,
                                 heap_after = h3\<rparr>))"

definition save_detected_object ::
  "lib \<Rightarrow> save_env \<Rightarrow> image_storage \<Rightarrow> images_dir \<Rightarrow> heap \<Rightarrow> ref \<Rightarrow> bbox \<Rightarrow> save_result" where
  "save_detected_object L env s d h fr b =
     (if rate_limited s (t_check env) then
        \<lparr>returned = False, logged = Info_Skipping, storage_after = s, dir_after = d, heap_after = h\<rparr>
      else case disk_free_1 env of
        None \<Rightarrow> failed OSError s d h
      | Some free1 \<Rightarrow>
          if check_storage_space s free1 then write_event L env s d h fr b
          else
            let d' = cleanup_old_files L (t_cleanup env) 7 d
            in case disk_free_2 env of
                 None \<Rightarrow> failed OSError s d' h
               | Some free2 \<Rightarrow>
                   if check_storage_space s free2 then write_event L env s d' h fr b
                   else failed (RuntimeError ''Insufficient storage space'') s d' h)"

section \<open>The motion detector (src/camera/object_detector.py)\<close>

record object_detector =
  min_area :: int
  threshold :: int
  blur_size :: int
  dilate_iterations :: int
  background :: "fimage option"

definition new_detector :: "int \<Rightarrow> int \<Rightarrow> int \<Rightarrow> int \<Rightarrow> object_detector" where
  "new_detector ma th bs di =
     \<lparr>min_area = ma, threshold = th, blur_size = bs, dilate_iterations = di, background = None\<rparr>"

definition default_detector :: object_detector where
  "default_detector = new_detector 500 30 21 2"

definition preprocess_frame :: "lib \<Rightarrow> object_detector \<Rightarrow> frame \<Rightarrow> exn + gray" where
  "preprocess_frame L det f =
     (case cvtColor L f of
        Inl e \<Rightarrow> Inl e
      | Inr gray_img \<Rightarrow> GaussianBlur L gray_img (blur_size det))"

text \<open>\<open>np.float32\<close> of an 8-bit image: every value 0..255 is a float32, so it is exact.\<close>

definition float32 :: "gray \<Rightarrow> fimage" where
  "float32 g = map (map (\<lambda>p. rat_of_nat (unat p))) g"

text \<open>
  \<open>cv2.convertScaleAbs\<close> with its default scale 1 and shift 0 stores
  \<open>saturate_cast<uchar>(|v|)\<close> for each value. The cast of a float rounds with
  \<open>cvRound\<close>, to the nearest integer and to the even one at a tie, then clamps to 0..255.
\<close>

definition cvRound :: "rat \<Rightarrow> int" where
  "cvRound v =
     (let f = \<lfloor>v\<rfloor>; r = v - of_int f
      in if r < 1 / 2 then f
         else if 1 / 2 < r then f + 1
         else if even f then f else f + 1)"

definition saturate_uint8 :: "int \<Rightarrow> uint8" where
  "saturate_uint8 i = (if i < 0 then 0 else if 255 < i then 255 else word_of_int i)"

definition convertScaleAbs :: "fimage \<Rightarrow> gray" where
  "convertScaleAbs img = map (map (\<lambda>v. saturate_uint8 (cvRound \<bar>v\<bar>))) img"

text \<open>
  \<open>cv2.absdiff\<close> of two 8-bit images of one shape; it raises when the shapes differ.
\<close>

definition absdiff_px :: "uint8 \<Rightarrow> uint8 \<Rightarrow> uint8" where
  "absdiff_px p q = (if q \<le> p then p - q else q - p)"

definition absdiff :: "gray \<Rightarrow> gray \<Rightarrow> exn + gray" where
  "absdiff a b =
     (if map length a = map length b then Inr (map2 (map2 absdiff_px) a b) else Inl CvError)"

text \<open>
  \<open>cv2.threshold\<close> with \<open>THRESH_BINARY\<close> on an 8-bit image. The threshold reaches the
  library as a double and is floored into a 32-bit int: a value that fits is kept; for
  any other value the conversion is the platform's, or Python raises because the int
  has no double. A converted threshold below 0 makes every pixel \<open>maxval\<close>, one of
  255 or more makes every pixel 0, and any other gives \<open>maxval\<close> where the value
  exceeds it: on 8-bit values all three are the comparison below.
\<close>

definition ithresh :: "lib \<Rightarrow> int \<Rightarrow> exn + int" where
  "ithresh L thresh =
     (if - 2147483648 \<le> thresh \<and> thresh < 2147483648 then Inr thresh else cvFloor L thresh)"

definition threshold_binary :: "lib \<Rightarrow> gray \<Rightarrow> int \<Rightarrow> uint8 \<Rightarrow> exn + gray" where
  "threshold_binary L g thresh maxval =
     (case ithresh L thresh of
        Inl e \<Rightarrow> Inl e
      | Inr it \<Rightarrow> Inr (map (map (\<lambda>p. if it < uint p then maxval else 0)) g))"

text \<open>
  The loop over the contours: a contour below \<open>min_area\<close> is skipped, any other adds
  its bounding box to the list and is drawn into the processed frame.
\<close>

fun process_contours ::
  "lib \<Rightarrow> object_detector \<Rightarrow> ref \<Rightarrow> contour list \<Rightarrow> bbox list \<Rightarrow> heap \<Rightarrow> (exn + bbox list) \<times> heap" where
  "process_contours L det pf [] detected h = (Inr detected, h)"
| "process_contours L det pf (c # cs) detected h =
     (if contourArea L c < rat_of_int (min_area det) then process_contours L det pf cs detected h
      else case boundingRect L c of (x, y, w, ht) \<Rightarrow>
        (case rectangle L (cells h pf) (x, y) (x + w, y + ht) of
           Inl e \<Rightarrow> (Inl e, h)
         | Inr drawn \<Rightarrow> process_contours L det pf cs (detected @ [(x, y, w, ht)]) (store h pf drawn)))"

text \<open>
  \<open>detect_objects\<close> returns the list of boxes and the reference of the processed frame,
  or the exception that a library call raised, together with the detector and the heap
  as the call leaves them.
\<close>

definition frame_delta :: "fimage \<Rightarrow> gray \<Rightarrow> exn + gray" where
  "frame_delta bg preprocessed = absdiff (convertScaleAbs bg) preprocessed"

text \<open>The call from the difference image on: lines 76 to 102.\<close>

definition detect_from_delta ::
  "lib \<Rightarrow> object_detector \<Rightarrow> heap \<Rightarrow> ref \<Rightarrow> gray \<Rightarrow> fimage \<Rightarrow> gray \<Rightarrow>
   (exn + bbox list \<times> ref) \<times> object_detector \<times> heap" where
  "detect_from_delta L det h1 processed_frame preprocessed bg delta =
     (case threshold_binary L delta (threshold det) 255 of
        Inl e \<Rightarrow> (Inl e, det, h1)
      | Inr thresh0 \<Rightarrow>
          (case dilate L thresh0 (dilate_iterations det) of
             Inl e \<Rightarrow> (Inl e, det, h1)
           | Inr thresh \<Rightarrow>
               (case process_contours L det processed_frame (findContours L thresh) [] h1 of
                  (Inl e, h2) \<Rightarrow> (Inl e, det, h2)
                | (Inr detected_objects, h2) \<Rightarrow>
                    (case accumulateWeighted L (float32 preprocessed) bg (1 / 5) of
                       Inl e \<Rightarrow> (Inl e, det, h2)
                     | Inr bg' \<Rightarrow>
                         (Inr (detected_objects, processed_frame),
                          det\<lparr>background := Some bg'\<rparr>, h2)))))"

definition detect_objects ::
  "lib \<Rightarrow> object_detector \<Rightarrow> heap \<Rightarrow> ref \<Rightarrow> (exn + bbox list \<times> ref) \<times> object_detector \<times> heap" where
  "detect_objects L det h fr =
     (let (processed_frame, h1) = copy h fr
      in case preprocess_frame L det (cells h1 fr) of
           Inl e \<Rightarrow> (Inl e, det, h1)
         | Inr preprocessed \<Rightarrow>
             (case background det of
                None \<Rightarrow>
                  (Inr ([], processed_frame), det\<lparr>background := Some (float32 preprocessed)\<rparr>, h1)
              | Some bg \<Rightarrow>
                  (case frame_delta bg preprocessed of
                     Inl e \<Rightarrow> (Inl e, det, h1)
                   | Inr delta \<Rightarrow> detect_from_delta L det h1 processed_frame preprocessed bg delta)))"

section \<open>An instance of the library interface\<close>

text \<open>
  The theorems below hold for every library. To run the model on concrete inputs, this
  instance gives the answers of OpenCV and of \<open>datetime\<close> on the inputs used there:
  uniform images (which blurring and dilation leave as they are, and whose foreground
  is either empty or the whole image, with the four corners as its contour), frames too
  small to show the timestamp text at (10, 30), the instant 2024-05-01 12:00:00 and a
  few directory names. The rectangle is drawn as an outline one pixel wide, which on
  the 2 \<times> 2 frame covers the pixels that the stroke of thickness 2 covers. Times count
  microseconds from 1970-01-01 00:00:00.
\<close>

definition luma :: "pixel \<Rightarrow> uint8" where
  "luma p = (case p of (b, g, r) \<Rightarrow>
     word_of_nat ((unat b * 1868 + unat g * 9617 + unat r * 4899 + 8192) div 16384))"

definition sample_cvtColor :: "frame \<Rightarrow> exn + gray" where
  "sample_cvtColor f = (if shape0 f = 0 \<or> shape1 f = 0 then Inl CvError else Inr (map (map luma) f))"

definition sample_GaussianBlur :: "gray \<Rightarrow> int \<Rightarrow> exn + gray" where
  "sample_GaussianBlur g ksize = (if ksize \<le> 0 \<or> even ksize then Inl CvError else Inr g)"

definition sample_dilate :: "gray \<Rightarrow> int \<Rightarrow> exn + gray" where
  "sample_dilate g iterations = (if iterations < 0 then Inl CvError else Inr g)"

definition sample_findContours :: "gray \<Rightarrow> contour list" where
  "sample_findContours m =
     (if list_all (list_all (\<lambda>p. p = 0)) m then []
      else [[(0, 0), (0, shape0 m - 1), (shape1 m - 1, shape0 m - 1), (shape1 m - 1, 0)]])"

fun shoelace :: "(int \<times> int) \<Rightarrow> contour \<Rightarrow> int" where
  "shoelace first [] = 0"
| "shoelace first [(x, y)] = x * snd first - fst first * y"
| "shoelace first ((x, y) # (x', y') # rest) = x * y' - x' * y + shoelace first ((x', y') # rest)"

definition sample_contourArea :: "contour \<Rightarrow> rat" where
  "sample_contourArea c = (case c of [] \<Rightarrow> 0 | p # _ \<Rightarrow> rat_of_int \<bar>shoelace p c\<bar> / 2)"

definition sample_boundingRect :: "contour \<Rightarrow> bbox" where
  "sample_boundingRect c =
     (case c of
        [] \<Rightarrow> (0, 0, 0, 0)
      | (x, y) # rest \<Rightarrow>
          let x0 = fold min (map fst rest) x; x1 = fold max (map fst rest) x;
              y0 = fold min (map snd rest) y; y1 = fold max (map snd rest) y
          in (x0, y0, x1 - x0 + 1, y1 - y0 + 1))"

definition green :: pixel where
  "green = (0, 255, 0)"

fun paint_row :: "(int \<Rightarrow> bool) \<Rightarrow> int \<Rightarrow> pixel list \<Rightarrow> pixel list" where
  "paint_row on j [] = []"
| "paint_row on j (p # ps) = (if on j then green else p) # paint_row on (j + 1) ps"

fun paint_rows :: "(int \<Rightarrow> int \<Rightarrow> bool) \<Rightarrow> int \<Rightarrow> frame \<Rightarrow> frame" where
  "paint_rows on i [] = []"
| "paint_rows on i (row # rows) = paint_row (on i) 0 row # paint_rows on (i + 1) rows"

definition sample_rectangle :: "frame \<Rightarrow> int \<times> int \<Rightarrow> int \<times> int \<Rightarrow> exn + frame" where
  "sample_rectangle f pt1 pt2 =
     (case (pt1, pt2) of ((x1, y1), (x2, y2)) \<Rightarrow>
        Inr (paint_rows
               (\<lambda>i j. ((j = x1 \<or> j = x2) \<and> min y1 y2 \<le> i \<and> i \<le> max y1 y2) \<or>
                      ((i = y1 \<or> i = y2) \<and> min x1 x2 \<le> j \<and> j \<le> max x1 x2))
               0 f))"

definition sample_putText :: "frame \<Rightarrow> string \<Rightarrow> int \<times> int \<Rightarrow> exn + frame" where
  "sample_putText f text org = Inr f"

definition sample_accumulateWeighted :: "fimage \<Rightarrow> fimage \<Rightarrow> rat \<Rightarrow> exn + fimage" where
  "sample_accumulateWeighted src dst alpha =
     (if map length src = map length dst
      then Inr (map2 (map2 (\<lambda>s b. (1 - alpha) * b + alpha * s)) src dst)
      else Inl CvError)"

definition noon :: datetime where
  "noon = 1714564800000000"

definition sample_strftime :: "string \<Rightarrow> datetime \<Rightarrow> string" where
  "sample_strftime fmt t =
     (if t \<noteq> noon then []
      else if fmt = ''%Y%m%d_%H%M%S_%f'' then ''20240501_120000_000000''
      else if fmt = ''%H-%M-%S'' then ''12-00-00''
      else if fmt = ''%Y-%m-%d'' then ''2024-05-01''
      else if fmt = ''%Y-%m-%d %H:%M:%S'' then ''2024-05-01 12:00:00''
      else [])"

definition sample_isoformat :: "datetime \<Rightarrow> string" where
  "sample_isoformat t = (if t = noon then ''2024-05-01T12:00:00'' else [])"

definition sample_strptime :: "string \<Rightarrow> datetime option" where
  "sample_strptime name =
     (if name = ''2000-01-01'' then Some 946684800000000
      else if name = ''2000-01-02'' then Some 946771200000000
      else if name = ''2024-04-28'' then Some 1714262400000000
      else if name = ''2024-05-01'' then Some 1714521600000000
      else None)"

text \<open>On x86-64 a double beyond the 32-bit range converts to the smallest 32-bit int.\<close>

definition sample_cvFloor :: "int \<Rightarrow> exn + int" where
  "sample_cvFloor t = Inr (- 2147483648)"

definition sample_lib :: lib where
  "sample_lib =
     \<lparr>cvtColor = sample_cvtColor, GaussianBlur = sample_GaussianBlur, dilate = sample_dilate,
      findContours = sample_findContours, contourArea = sample_contourArea,
      boundingRect = sample_boundingRect, rectangle = sample_rectangle, putText = sample_putText,
      accumulateWeighted = sample_accumulateWeighted, strftime = sample_strftime,
      isoformat = sample_isoformat, strptime = sample_strptime, cvFloor = sample_cvFloor\<rparr>"

text \<open>A 2 \<times> 2 gray frame, a heap holding it at reference 0, and a clock at noon.\<close>

definition gray_frame :: frame where
  "gray_frame = [[(100, 100, 100), (100, 100, 100)], [(100, 100, 100), (100, 100, 100)]]"

definition heap0 :: heap where
  "heap0 = \<lparr>cells = (\<lambda>_. [])(0 := gray_frame), next_ref = 1\<rparr>"

definition env_noon :: save_env where
  "env_noon =
     \<lparr>t_check = noon, disk_free_1 = Some 5000000000, t_cleanup = noon, disk_free_2 = Some 5000000000,
      t_id = noon, t_meta = noon, t_fname = noon, t_date = noon, t_text = noon,
      imwrite_ok = True, open_ok = True\<rparr>"

definition storage0 :: image_storage where
  "storage0 = new_storage 10"

definition dir0 :: images_dir where
  "dir0 = [(''2024-05-01'', Directory []), (''latest'', Symlink True)]"

text \<open>
  The first save at noon, and saves attempted four seconds later, with an encoder that
  cannot write the image file, and with a volume that is and stays short of space.
\<close>

definition first_save :: save_result where
  "first_save = save_detected_object sample_lib env_noon storage0 dir0 heap0 0 (0, 0, 1, 1)"

definition env_later :: save_env where
  "env_later = env_noon\<lparr>t_check := noon + 4000000\<rparr>"

definition env_no_image :: save_env where
  "env_no_image = env_noon\<lparr>imwrite_ok := False\<rparr>"

definition env_full :: save_env where
  "env_full = env_noon\<lparr>disk_free_1 := Some 1000000, disk_free_2 := Some 1000000\<rparr>"

definition dir_old :: images_dir where
  "dir_old =
     [(''2000-01-02'', Directory [(''a.jpg'', ImageFile gray_frame)]),
      (''2024-04-28'', Directory []),
      (''2024-05-01'', Directory []),
      (''notes'', Directory []),
      (''latest'', Symlink True)]"

definition dir_linked :: images_dir where
  "dir_linked = [(''2000-01-01'', Symlink True), (''2000-01-02'', Directory [])]"

text \<open>
  A bucket is expired when \<open>is_dir\<close> accepts the entry, its name is not \<open>latest\<close>,
  \<open>strptime\<close> reads the name as a date and that date lies more than \<open>days_to_keep\<close>
  whole days back. \<open>shutil.rmtree\<close> removes it when it is a real directory.
\<close>

definition expired_bucket :: "lib \<Rightarrow> datetime \<Rightarrow> int \<Rightarrow> string \<times> entry \<Rightarrow> bool" where
  "expired_bucket L current_time days_to_keep x \<longleftrightarrow>
     is_dir (snd x) \<and> fst x \<noteq> ''latest'' \<and>
     (case strptime L (fst x) of
        None \<Rightarrow> False
      | Some dir_date \<Rightarrow> days_to_keep < age_days current_time dir_date)"

definition real_directory :: "entry \<Rightarrow> bool" where
  "real_directory e \<longleftrightarrow> (case e of Directory _ \<Rightarrow> True | _ \<Rightarrow> False)"

text \<open>
  Inputs for the detector: a brighter 2 \<times> 2 frame, a detector that has seen the gray
  frame, a uniform 24 \<times> 24 frame with its heap, detectors with a negative threshold
  and with the threshold 2^31 whose background is that frame, and a detector whose
  background is darker by 30.25.
\<close>

definition bright_frame :: frame where
  "bright_frame = [[(200, 200, 200), (200, 200, 200)], [(200, 200, 200), (200, 200, 200)]]"

definition heap_bright :: heap where
  "heap_bright = \<lparr>cells = (\<lambda>_. [])(0 := bright_frame), next_ref = 1\<rparr>"

definition seen_gray :: object_detector where
  "seen_gray = default_detector\<lparr>background := Some [[100, 100], [100, 100]]\<rparr>"

definition uniform24 :: frame where
  "uniform24 = replicate 24 (replicate 24 (100, 100, 100))"

definition heap24 :: heap where
  "heap24 = \<lparr>cells = (\<lambda>_. [])(0 := uniform24), next_ref = 1\<rparr>"


definition overflowing_threshold :: object_detector where
  "overflowing_threshold =
     default_detector\<lparr>threshold := 2147483648, background := Some (replicate 24 (replicate 24 100))\<rparr>"

definition seen_darker :: object_detector where
  "seen_darker = default_detector\<lparr>background := Some (replicate 24 (replicate 24 (279 / 4)))\<rparr>"

text \<open>The mask with no foreground, of the shape of a given image.\<close>

definition blank :: "gray \<Rightarrow> gray" where
  "blank g = map (map (\<lambda>_. 0)) g"

section \<open>Properties of the event store\<close>

lemma new_storage_fields:
  "min_save_interval (new_storage g) = 10" "last_save_timestamp (new_storage g) = None"
  by (simp_all add: new_storage_def)

lemma map_of_write_file: "map_of (write_file name f files) name = Some f"
  by (induction files) auto

lemma read_after_write:
  "write_in_bucket date name f d = Some d' \<Longrightarrow> read_file d' date name = Some f"
proof (induction d arbitrary: d')
  case Nil
  then show ?case by simp
next
  case (Cons a d)
  obtain n e where a: "a = (n, e)" by (cases a)
  show ?case
  proof (cases "n = date")
    case True
    with Cons.prems a show ?thesis
      by (cases e) (auto simp: read_file_def map_of_write_file)
  next
    case False
    with Cons.prems a obtain r where r: "write_in_bucket date name f d = Some r" and d': "d' = (n, e) # r"
      by auto
    from Cons.IH [OF r] False d' show ?thesis
      by (simp add: read_file_def)
  qed
qed

text \<open>
  C1. A save attempted less than \<open>min_save_interval\<close> seconds after the last successful
  one is a skip: it returns \<open>False\<close>, logs the skip and not an error, and leaves the
  timestamp, every stored file and the heap as they were.
\<close>

theorem rate_limited_save_is_skipped:
  assumes "last_save_timestamp s = Some t"
    and "t_check env - t < min_save_interval s * 1000000"
  shows "save_detected_object L env s d h fr b =
           \<lparr>returned = False, logged = Info_Skipping, storage_after = s, dir_after = d, heap_after = h\<rparr>"
  using assms by (simp add: save_detected_object_def rate_limited_def)

theorem rate_limited_save_is_skipped_witness:
  "last_save_timestamp (storage_after first_save) = Some noon \<and>
   t_check env_later - noon < min_save_interval (storage_after first_save) * 1000000 \<and>
   save_detected_object sample_lib env_later (storage_after first_save) (dir_after first_save)
       (heap_after first_save) 0 (1, 1, 1, 1) =
     \<lparr>returned = False, logged = Info_Skipping, storage_after = storage_after first_save,
      dir_after = dir_after first_save, heap_after = heap_after first_save\<rparr>"
proof -
  have h1: "last_save_timestamp (storage_after first_save) = Some noon"
    by code_simp
  have h2: "t_check env_later - noon < min_save_interval (storage_after first_save) * 1000000"
    by code_simp
  show ?thesis
    using rate_limited_save_is_skipped [OF h1 h2] h1 h2 by simp
qed


lemma failed_fields:
  "returned (failed e s d h) = False" "storage_after (failed e s d h) = s"
  "dir_after (failed e s d h) = d" "heap_after (failed e s d h) = h" "logged (failed e s d h) = Error_Failed e"
  by (simp_all add: failed_def)

lemma write_event_returned:
  assumes "returned (write_event L env s d h fr (x, y, w, ht))"
  shows "read_file (dir_after (write_event L env s d h fr (x, y, w, ht)))
           (current_date_of L env) (stem_of L env @ ''.json'')
         = Some (JsonFile (metadata L env (object_id_of L env) (cells h fr) (x, y, w, ht)))"
  using assms
  by (auto simp: write_event_def Let_def copy_def failed_fields dump_json_def read_after_write 
      split: sum.splits prod.splits if_splits option.splits)

lemma save_returned_cases:
  assumes "returned (save_detected_object L env s d h fr b)"
  shows "\<exists>d'. save_detected_object L env s d h fr b = write_event L env s d' h fr b"
  using assms
  by (auto simp: save_detected_object_def Let_def failed_fields split: if_splits option.splits)

text \<open>
  C5. After a successful save with region \<open>(x, y, w, ht)\<close>, the metadata file beside the
  image holds exactly the fields \<open>object_id\<close>, \<open>timestamp\<close> (the ISO format of the
  clock), \<open>bbox\<close> with the region and \<open>frame_size\<close> with the width and the height of
  the frame.
\<close>

theorem metadata_of_saved_event:
  assumes "returned (save_detected_object L env s d h fr (x, y, w, ht))"
  shows "read_file (dir_after (save_detected_object L env s d h fr (x, y, w, ht)))
           (strftime L ''%Y-%m-%d'' (t_date env))
           (strftime L ''%H-%M-%S'' (t_fname env) @ ''_object_'' @ strftime L ''%Y%m%d_%H%M%S_%f'' (t_id env) @ ''.json'')
         = Some (JsonFile (JObject
             [(''object_id'', JString (strftime L ''%Y%m%d_%H%M%S_%f'' (t_id env))),
              (''timestamp'', JString (isoformat L (t_meta env))),
              (''bbox'', JObject [(''x'', JInt x), (''y'', JInt y), (''width'', JInt w), (''height'', JInt ht)]),
              (''frame_size'', JObject [(''width'', JInt (shape1 (cells h fr))), (''height'', JInt (shape0 (cells h fr)))])]))"
proof -
  from save_returned_cases [OF assms] obtain d' where
    eq: "save_detected_object L env s d h fr (x, y, w, ht) = write_event L env s d' h fr (x, y, w, ht)"
    by blast
  with assms have "returned (write_event L env s d' h fr (x, y, w, ht))" by simp
  from write_event_returned [OF this] eq show ?thesis
    by (simp add: metadata_def current_date_of_def stem_of_def object_id_of_def)
qed

theorem metadata_of_saved_event_witness:
  "returned (save_detected_object sample_lib env_noon storage0 dir0 heap0 0 (0, 0, 1, 1)) \<and>
   read_file (dir_after (save_detected_object sample_lib env_noon storage0 dir0 heap0 0 (0, 0, 1, 1)))
      ''2024-05-01'' ''12-00-00_object_20240501_120000_000000.json''
    = Some (JsonFile (JObject
             [(''object_id'', JString ''20240501_120000_000000''),
              (''timestamp'', JString ''2024-05-01T12:00:00''),
              (''bbox'', JObject [(''x'', JInt 0), (''y'', JInt 0), (''width'', JInt 1), (''height'', JInt 1)]),
              (''frame_size'', JObject [(''width'', JInt 2), (''height'', JInt 2)])]))"
proof -
  have h: "returned (save_detected_object sample_lib env_noon storage0 dir0 heap0 0 (0, 0, 1, 1))"
    by code_simp
  have s1: "strftime sample_lib ''%Y-%m-%d'' (t_date env_noon) = ''2024-05-01''" by code_simp
  have s2: "strftime sample_lib ''%H-%M-%S'' (t_fname env_noon) = ''12-00-00''" by code_simp
  have s3: "strftime sample_lib ''%Y%m%d_%H%M%S_%f'' (t_id env_noon) = ''20240501_120000_000000''" by code_simp
  have s4: "isoformat sample_lib (t_meta env_noon) = ''2024-05-01T12:00:00''" by code_simp
  have s5: "shape1 (cells heap0 0) = 2" "shape0 (cells heap0 0) = 2" by code_simp+
  show ?thesis
    using metadata_of_saved_event [OF h] h unfolding s1 s2 s3 s4 s5 by simp
qed

lemma failure_keeps_timestamp:
  "\<not> returned (save_detected_object L env s d h fr b) \<Longrightarrow>
   storage_after (save_detected_object L env s d h fr b) = s"
  by (auto simp: save_detected_object_def write_event_def Let_def copy_def failed_fields
      split: if_splits option.splits sum.splits prod.splits)

lemma raised_write_fails:
  assumes "\<not> rate_limited s (t_check env)" "disk_free_1 env = Some f1" "check_storage_space s f1"
    and "\<not> open_ok env"
  shows "\<not> returned (save_detected_object L env s d h fr b)"
  using assms
  by (auto simp: save_detected_object_def write_event_def Let_def copy_def failed_fields dump_json_def
      split: if_splits option.splits sum.splits prod.splits)

text \<open>
  C3. A save that raises while it renders or writes returns \<open>False\<close> and keeps the
  timestamp. A save whose image file could not be written (\<open>cv2.imwrite\<close> returns
  \<open>False\<close>, and the value is discarded) still writes the metadata, returns \<open>True\<close>
  and moves the timestamp.
\<close>

theorem unwritten_image_reported_as_saved:
  "imwrite env_no_image dir0 ''2024-05-01'' ''12-00-00_object_20240501_120000_000000.jpg''
     [[green, green], [green, green]] = Inr (False, dir0) \<and>
   returned (save_detected_object sample_lib env_no_image storage0 dir0 heap0 0 (0, 0, 1, 1)) \<and>
   last_save_timestamp (storage_after (save_detected_object sample_lib env_no_image storage0 dir0 heap0 0 (0, 0, 1, 1)))
     = Some noon \<and>
   read_file (dir_after (save_detected_object sample_lib env_no_image storage0 dir0 heap0 0 (0, 0, 1, 1)))
     ''2024-05-01'' ''12-00-00_object_20240501_120000_000000.jpg'' = None \<and>
   read_file (dir_after (save_detected_object sample_lib env_no_image storage0 dir0 heap0 0 (0, 0, 1, 1)))
     ''2024-05-01'' ''12-00-00_object_20240501_120000_000000.json'' \<noteq> None"
  by code_simp

lemma cleanup_loop_subset: "set (cleanup_loop L now days d) \<subseteq> set d"
proof (induction d)
  case Nil
  show ?case by simp
next
  case (Cons a d)
  obtain n e where a: "a = (n, e)" by (cases a)
  have "set (cleanup_loop L now days ((n, e) # d)) \<subseteq> insert (n, e) (set d)"
    using Cons.IH by (cases e; cases "strptime L n") auto
  with a show ?case by simp
qed

text \<open>
  C6. When the save is not rate limited and the free space is below a tenth of the
  storage budget, \<open>cleanup_old_files\<close> runs once with the default retention of 7 days
  and the free space is read again. If it is still below the tenth, the save returns
  \<open>False\<close> with the error \<open>Insufficient storage space\<close>: the timestamp and the heap
  are unchanged and the directory is what the cleanup left, every entry of which was
  there before, so no image or metadata file is written. If the space now suffices,
  the save goes on in the cleaned directory.
\<close>

theorem short_of_space_cleans_once_then_fails:
  assumes "\<not> rate_limited s (t_check env)"
    and "disk_free_1 env = Some free1"
    and "rat_of_int free1 < max_storage_bytes s * (1 / 10)"
    and "disk_free_2 env = Some free2"
  shows "(check_storage_space s free2 \<longrightarrow>
            save_detected_object L env s d h fr b =
              write_event L env s (cleanup_old_files L (t_cleanup env) 7 d) h fr b) \<and>
         (rat_of_int free2 < max_storage_bytes s * (1 / 10) \<longrightarrow>
            save_detected_object L env s d h fr b =
              \<lparr>returned = False,
               logged = Error_Failed (RuntimeError ''Insufficient storage space''),
               storage_after = s,
               dir_after = cleanup_old_files L (t_cleanup env) 7 d,
               heap_after = h\<rparr>) \<and>
         set (cleanup_old_files L (t_cleanup env) 7 d) \<subseteq> set d"
  using assms cleanup_loop_subset [of L "t_cleanup env" 7 d]
  by (simp add: save_detected_object_def check_storage_space_def failed_def cleanup_old_files_def)

theorem short_of_space_cleans_once_then_fails_witness:
  "\<not> rate_limited storage0 (t_check env_full) \<and>
   disk_free_1 env_full = Some 1000000 \<and>
   rat_of_int 1000000 < max_storage_bytes storage0 * (1 / 10) \<and>
   disk_free_2 env_full = Some 1000000 \<and>
   save_detected_object sample_lib env_full storage0 dir_old heap0 0 (0, 0, 1, 1) =
     \<lparr>returned = False,
      logged = Error_Failed (RuntimeError ''Insufficient storage space''),
      storage_after = storage0,
      dir_after =
        [(''2024-04-28'', Directory []), (''2024-05-01'', Directory []),
         (''notes'', Directory []), (''latest'', Symlink True)],
      heap_after = heap0\<rparr>"
proof -
  have h1: "\<not> rate_limited storage0 (t_check env_full)" by code_simp
  have h2: "disk_free_1 env_full = Some 1000000" by code_simp
  have h3: "rat_of_int 1000000 < max_storage_bytes storage0 * (1 / 10)" by code_simp
  have h4: "disk_free_2 env_full = Some 1000000" by code_simp
  have c: "cleanup_old_files sample_lib (t_cleanup env_full) 7 dir_old =
             [(''2024-04-28'', Directory []), (''2024-05-01'', Directory []),
              (''notes'', Directory []), (''latest'', Symlink True)]"
    by code_simp
  show ?thesis
    using short_of_space_cleans_once_then_fails [OF h1 h2 h3 h4, of sample_lib dir_old heap0 0 "(0, 0, 1, 1)"]
      h1 h2 h3 h4 unfolding c by simp
qed

lemma cleanup_loop_filter:
  assumes "\<forall>x \<in> set d. expired_bucket L now days x \<longrightarrow> real_directory (snd x)"
  shows "cleanup_loop L now days d = filter (\<lambda>x. \<not> expired_bucket L now days x) d"
  using assms
proof (induction d)
  case Nil
  show ?case by simp
next
  case (Cons a d)
  obtain n e where a: "a = (n, e)" by (cases a)
  from Cons.prems have rest: "\<forall>x \<in> set d. expired_bucket L now days x \<longrightarrow> real_directory (snd x)"
    by simp
  note IH = Cons.IH [OF rest]
  from Cons.prems a have here: "expired_bucket L now days (n, e) \<longrightarrow> real_directory e"
    by simp
  show ?case
  proof (cases "expired_bucket L now days (n, e)")
    case True
    with here obtain files where e: "e = Directory files"
      by (cases e) (auto simp: real_directory_def)
    from True e a IH show ?thesis
      by (auto simp: expired_bucket_def split: option.splits)
  next
    case False
    with a IH show ?thesis
      by (cases e) (auto simp: expired_bucket_def split: option.splits)
  qed
qed

lemma cleanup_loop_idem:
  "cleanup_loop L now days (cleanup_loop L now days d) = cleanup_loop L now days d"
  by (induction d) (auto split: option.splits entry.splits)

text \<open>
  C4. Every bucket older than the retention window is to be deleted. In a directory
  whose first entry is an expired symbolic link to a directory, \<open>rmtree\<close> raises
  \<open>OSError\<close> on the link, the loop catches only \<open>ValueError\<close>, and the cleanup ends
  there: the expired bucket listed after the link is still there, and nothing at all
  was removed.
\<close>

theorem cleanup_stops_at_link:
  "expired_bucket sample_lib noon 7 (''2000-01-02'', Directory []) \<and>
   (''2000-01-02'', Directory []) \<in> set dir_linked \<and>
   (''2000-01-02'', Directory []) \<in> set (cleanup_old_files sample_lib noon 7 dir_linked) \<and>
   cleanup_old_files sample_lib noon 7 dir_linked = dir_linked"
  by code_simp

text \<open>
  Where no removal fails, that is where every expired entry is a real directory, the
  cleanup removes exactly the expired buckets and leaves every other entry (buckets
  within the window, names that are not dates, \<open>latest\<close>, plain files) as it was and
  in place. In every state a second cleanup at the same clock reading changes nothing.
\<close>

lemma cleanup_removes_expired_buckets:
  "((\<forall>x \<in> set d. expired_bucket L now days x \<longrightarrow> real_directory (snd x)) \<longrightarrow>
      cleanup_old_files L now days d = filter (\<lambda>x. \<not> expired_bucket L now days x) d) \<and>
   cleanup_old_files L now days (cleanup_old_files L now days d) = cleanup_old_files L now days d"
  using cleanup_loop_filter [of d L now days] cleanup_loop_idem [of L now days d]
  by (simp add: cleanup_old_files_def)

lemma cleanup_removes_expired_buckets_example:
  "filter (expired_bucket sample_lib noon 7) dir_old =
     [(''2000-01-02'', Directory [(''a.jpg'', ImageFile gray_frame)])] \<and>
   cleanup_old_files sample_lib noon 7 dir_old =
     [(''2024-04-28'', Directory []), (''2024-05-01'', Directory []),
      (''notes'', Directory []), (''latest'', Symlink True)] \<and>
   cleanup_old_files sample_lib noon 7 (cleanup_old_files sample_lib noon 7 dir_old) =
     cleanup_old_files sample_lib noon 7 dir_old"
proof -
  have h: "\<forall>x \<in> set dir_old. expired_bucket sample_lib noon 7 x \<longrightarrow> real_directory (snd x)"
    by code_simp
  have f: "filter (\<lambda>x. \<not> expired_bucket sample_lib noon 7 x) dir_old =
     [(''2024-04-28'', Directory []), (''2024-05-01'', Directory []),
      (''notes'', Directory []), (''latest'', Symlink True)]"
    by code_simp
  from cleanup_removes_expired_buckets [of dir_old sample_lib noon 7] h
  have c1: "cleanup_old_files sample_lib noon 7 dir_old = filter (\<lambda>x. \<not> expired_bucket sample_lib noon 7 x) dir_old"
    and c2: "cleanup_old_files sample_lib noon 7 (cleanup_old_files sample_lib noon 7 dir_old) =
      cleanup_old_files sample_lib noon 7 dir_old"
    by blast+
  from c1 f have c3: "cleanup_old_files sample_lib noon 7 dir_old =
     [(''2024-04-28'', Directory []), (''2024-05-01'', Directory []),
      (''notes'', Directory []), (''latest'', Symlink True)]"
    by (rule trans)
  have e: "filter (expired_bucket sample_lib noon 7) dir_old =
     [(''2000-01-02'', Directory [(''a.jpg'', ImageFile gray_frame)])]"
    by code_simp
  from e c3 c2 show ?thesis by blast
qed


section \<open>Properties of the motion detector\<close>

lemma cvRound_of_int: "cvRound (rat_of_int i) = i"
  by (simp add: cvRound_def Let_def)

lemma saturate_unat: "saturate_uint8 (int (unat (p :: uint8))) = p"
proof -
  have "uint p < 256" using uint_bounded [of p] by simp
  then show ?thesis by (simp add: saturate_uint8_def)
qed

lemma abs_rat_of_nat: "\<bar>rat_of_nat n\<bar> = rat_of_int (int n)"
  by simp

lemma convertScaleAbs_px_float32: "saturate_uint8 (cvRound \<bar>rat_of_nat (unat (p :: uint8))\<bar>) = p"
  by (simp only: abs_rat_of_nat cvRound_of_int saturate_unat)

lemma convertScaleAbs_float32: "convertScaleAbs (float32 g) = g"
  unfolding convertScaleAbs_def float32_def map_map comp_def convertScaleAbs_px_float32
  by simp

lemma copy_fields:
  "fst (copy h r) = next_ref h"
  "r < next_ref h \<Longrightarrow> cells (snd (copy h r)) r = cells h r"
  "cells (snd (copy h r)) (next_ref h) = cells h r"
  "next_ref (snd (copy h r)) = Suc (next_ref h)"
  by (simp_all add: copy_def)

text \<open>
  C2. The first call on a detector without a background model, for a frame that the
  grayscale conversion and the blur accept, returns the empty list of regions (and the
  reference of the fresh copy) whatever the frame holds, and sets the background model
  to the float32 image of the smoothed frame: each value is the 8-bit value itself, and
  converting the model back to 8 bits gives the smoothed frame again. No blending.
\<close>

theorem first_call_initialises_background:
  assumes "background det = None"
    and "fr < next_ref h"
    and "preprocess_frame L det (cells h fr) = Inr smoothed"
  shows "detect_objects L det h fr =
           (Inr ([], next_ref h), det\<lparr>background := Some (float32 smoothed)\<rparr>, snd (copy h fr)) \<and>
         float32 smoothed = map (map (\<lambda>p. rat_of_nat (unat p))) smoothed \<and>
         convertScaleAbs (float32 smoothed) = smoothed"
proof (intro conjI)
  show "detect_objects L det h fr =
          (Inr ([], next_ref h), det\<lparr>background := Some (float32 smoothed)\<rparr>, snd (copy h fr))"
    using assms by (simp add: detect_objects_def copy_def)
  show "float32 smoothed = map (map (\<lambda>p. rat_of_nat (unat p))) smoothed"
    by (simp only: float32_def)
  show "convertScaleAbs (float32 smoothed) = smoothed"
    by (rule convertScaleAbs_float32)
qed

lemma new_detector_background: "background (new_detector ma th bs di) = None"
  by (simp add: new_detector_def)

lemma luma_gray: "luma (100, 100, 100) = 100"
  by (simp add: luma_def)

lemma preprocess_gray_frame:
  "blur_size det = 21 \<Longrightarrow>
   preprocess_frame sample_lib det gray_frame = Inr [[100, 100], [100, 100]]"
  by (simp add: preprocess_frame_def sample_lib_def sample_cvtColor_def sample_GaussianBlur_def
      gray_frame_def shape0_def shape1_def luma_gray)

lemma heap0_fields: "cells heap0 0 = gray_frame" "next_ref heap0 = 1"
  by (simp_all add: heap0_def)

lemma float32_hundreds: "float32 [[100, 100], [100, 100]] = [[100, 100], [100, 100]]"
  by (simp add: float32_def)

theorem first_call_initialises_background_witness:
  "background default_detector = None \<and> 0 < next_ref heap0 \<and>
   preprocess_frame sample_lib default_detector (cells heap0 0) = Inr [[100, 100], [100, 100]] \<and>
   fst (detect_objects sample_lib default_detector heap0 0) = Inr ([], 1) \<and>
   background (fst (snd (detect_objects sample_lib default_detector heap0 0))) = Some [[100, 100], [100, 100]]"
proof -
  have h1: "background default_detector = None"
    by (simp add: default_detector_def new_detector_def)
  have h2: "0 < next_ref heap0" by (simp add: heap0_fields)
  have h3: "preprocess_frame sample_lib default_detector (cells heap0 0) = Inr [[100, 100], [100, 100]]"
    by (simp add: heap0_fields preprocess_gray_frame default_detector_def new_detector_def)
  show ?thesis
    using first_call_initialises_background [OF h1 h2 h3] h1 h2 h3
    by (simp add: float32_hundreds heap0_fields)
qed


text \<open>
  C7. Every call that finds a background model and returns has replaced the model by
  what \<open>cv2.accumulateWeighted\<close> computes from the float32 image of the smoothed frame
  and the old model with weight 0.2, whatever the list of regions is; nothing else of
  the detector changes. The floating-point kernel of \<open>accumulateWeighted\<close>, documented
  as \<open>(1 - alpha) * dst + alpha * src\<close>, is the library's.
\<close>

theorem background_updated_on_every_later_call:
  assumes "background det = Some bg"
    and "fr < next_ref h"
    and "detect_objects L det h fr = (Inr (regions, pf), det', h')"
  shows "\<exists>smoothed bg'.
           preprocess_frame L det (cells h fr) = Inr smoothed \<and>
           accumulateWeighted L (float32 smoothed) bg (1 / 5) = Inr bg' \<and>
           det' = det\<lparr>background := Some bg'\<rparr>"
  using assms
  by (auto simp: detect_objects_def detect_from_delta_def copy_def split: sum.splits prod.splits)

lemma luma_uniform: "luma (v, v, v) = v"
proof -
  have "(unat v * 1868 + unat v * 9617 + unat v * 4899 + 8192) div 16384 = unat v"
    by simp
  then show ?thesis by (simp add: luma_def)
qed

lemma detect_bright:
  "detect_objects sample_lib seen_gray heap_bright 0 =
     (Inr ([], 1), seen_gray\<lparr>background := Some [[120, 120], [120, 120]]\<rparr>, snd (copy heap_bright 0))"
  by (simp add: detect_objects_def copy_def heap_bright_def bright_frame_def seen_gray_def
      default_detector_def new_detector_def preprocess_frame_def sample_lib_def sample_cvtColor_def
      sample_GaussianBlur_def shape0_def shape1_def luma_uniform frame_delta_def absdiff_def
      convertScaleAbs_def cvRound_def saturate_uint8_def absdiff_px_def threshold_binary_def
      detect_from_delta_def ithresh_def
      sample_dilate_def sample_findContours_def sample_contourArea_def float32_def
      sample_accumulateWeighted_def)

theorem background_updated_on_every_later_call_witness:
  "background seen_gray = Some [[100, 100], [100, 100]] \<and> 0 < next_ref heap_bright \<and>
   detect_objects sample_lib seen_gray heap_bright 0 =
     (Inr ([], 1), seen_gray\<lparr>background := Some [[120, 120], [120, 120]]\<rparr>, snd (copy heap_bright 0)) \<and>
   (\<exists>smoothed bg'.
      preprocess_frame sample_lib seen_gray (cells heap_bright 0) = Inr smoothed \<and>
      accumulateWeighted sample_lib (float32 smoothed) [[100, 100], [100, 100]] (1 / 5) = Inr bg' \<and>
      seen_gray\<lparr>background := Some [[120, 120], [120, 120]]\<rparr> = seen_gray\<lparr>background := Some bg'\<rparr>)"
proof -
  have h1: "background seen_gray = Some [[100, 100], [100, 100]]"
    by (simp add: seen_gray_def)
  have h2: "0 < next_ref heap_bright" by (simp add: heap_bright_def)
  show ?thesis
    using background_updated_on_every_later_call [OF h1 h2 detect_bright] h1 h2 detect_bright
    by blast
qed

lemma store_other: "r \<noteq> fr \<Longrightarrow> cells (store h r f) fr = cells h fr"
  by (simp add: store_def)

lemma process_contours_other:
  "pf \<noteq> fr \<Longrightarrow> cells (snd (process_contours L det pf cs detected h)) fr = cells h fr"
proof (induction cs arbitrary: detected h)
  case Nil
  show ?case by simp
next
  case (Cons c cs)
  show ?case
  proof (cases "contourArea L c < rat_of_int (min_area det)")
    case True
    with Cons show ?thesis by simp
  next
    case False
    obtain x y w ht where b: "boundingRect L c = (x, y, w, ht)"
      by (cases "boundingRect L c")
    show ?thesis
    proof (cases "rectangle L (cells h pf) (x, y) (x + w, y + ht)")
      case (Inl e)
      with False b show ?thesis by simp
    next
      case (Inr drawn)
      with False b Cons.IH [OF Cons.prems, of "detected @ [(x, y, w, ht)]" "store h pf drawn"] Cons.prems
      show ?thesis by (simp add: store_other)
    qed
  qed
qed

lemma detect_objects_keeps_frame:
  assumes "fr < next_ref h"
  shows "cells (snd (snd (detect_objects L det h fr))) fr = cells h fr"
proof -
  let ?h1 = "snd (copy h fr)"
  have ne: "next_ref h \<noteq> fr" using assms by simp
  have c: "cells ?h1 fr = cells h fr" using assms by (simp add: copy_def)
  have p: "cells (snd (process_contours L det (next_ref h) cs [] ?h1)) fr = cells h fr" for cs
    using process_contours_other [OF ne] c by simp
  have p2: "process_contours L det (next_ref h) cs [] ?h1 = (r, h2) \<Longrightarrow> cells h2 fr = cells h fr" for cs r h2
    using p [of cs] by simp
  show ?thesis
    using c
    by (auto simp: detect_objects_def detect_from_delta_def copy_def
        split: sum.splits option.splits prod.splits dest!: p2 [unfolded copy_def, simplified])
qed

lemma write_event_keeps_frame:
  assumes "fr < next_ref h"
  shows "cells (heap_after (write_event L env s d h fr b)) fr = cells h fr"
  using assms
  by (auto simp: write_event_def Let_def copy_def store_def failed_def split: sum.splits prod.splits)

lemma save_keeps_frame:
  assumes "fr < next_ref h"
  shows "cells (heap_after (save_detected_object L env s d h fr b)) fr = cells h fr"
  using write_event_keeps_frame [OF assms]
  by (simp add: save_detected_object_def failed_def Let_def split: option.splits)

text \<open>
  C10. The array of the caller's frame is the same after \<open>detect_objects\<close> and after
  \<open>save_detected_object\<close>, whether they return or raise: both draw into a copy that
  they allocate.
\<close>

theorem caller_frame_not_mutated:
  assumes "fr < next_ref h"
  shows "cells (snd (snd (detect_objects L det h fr))) fr = cells h fr \<and>
         cells (heap_after (save_detected_object L env s d h fr b)) fr = cells h fr"
  using detect_objects_keeps_frame [OF assms] save_keeps_frame [OF assms] by simp

theorem caller_frame_not_mutated_witness:
  "0 < next_ref heap0 \<and>
   cells (snd (snd (detect_objects sample_lib default_detector heap0 0))) 0 = gray_frame \<and>
   cells (heap_after first_save) 0 = gray_frame \<and>
   cells (heap_after first_save) 1 = [[green, green], [green, green]]"
proof -
  have h: "0 < next_ref heap0" by (simp add: heap0_def)
  have g: "cells heap0 0 = gray_frame" by (simp add: heap0_def)
  have a: "cells (heap_after first_save) 1 = [[green, green], [green, green]]"
    by code_simp
  show ?thesis
    using caller_frame_not_mutated [OF h, of sample_lib default_detector env_noon storage0 dir0 "(0, 0, 1, 1)"]
      h a unfolding first_save_def g by simp
qed


lemma cvRound_near: "\<bar>rat_of_int (cvRound v) - v\<bar> \<le> 1 / 2"
proof -
  have "rat_of_int \<lfloor>v\<rfloor> \<le> v" "v < rat_of_int \<lfloor>v\<rfloor> + 1"
    by linarith+
  then show ?thesis
    by (auto simp: cvRound_def Let_def)
qed

lemma unat_saturate:
  assumes "0 \<le> i" "i \<le> 255"
  shows "int (unat (saturate_uint8 i)) = i"
proof -
  have "uint (word_of_int i :: uint8) = i"
    using assms by (simp add: uint_word_of_int)
  then show ?thesis
    using assms by (simp add: saturate_uint8_def)
qed

lemma cvRound_nonneg:
  assumes "0 \<le> v"
  shows "0 \<le> cvRound v"
proof -
  have "0 \<le> \<lfloor>v\<rfloor>" using assms by simp
  then show ?thesis by (auto simp: cvRound_def Let_def)
qed

lemma convertScaleAbs_px_near:
  assumes "\<bar>v\<bar> \<le> 511 / 2"
  shows "\<bar>rat_of_nat (unat (saturate_uint8 (cvRound \<bar>v\<bar>))) - \<bar>v\<bar>\<bar> \<le> 1 / 2"
proof -
  let ?c = "cvRound \<bar>v\<bar>"
  have c0: "0 \<le> ?c" by (rule cvRound_nonneg) simp
  have near: "\<bar>rat_of_int ?c - \<bar>v\<bar>\<bar> \<le> 1 / 2" by (rule cvRound_near)
  show ?thesis
  proof (cases "?c \<le> 255")
    case True
    have "rat_of_nat (unat (saturate_uint8 ?c)) = rat_of_int (int (unat (saturate_uint8 ?c)))"
      by simp
    also have "\<dots> = rat_of_int ?c"
      by (simp only: unat_saturate [OF c0 True])
    finally show ?thesis using near by simp
  next
    case False
    then have "256 \<le> ?c" by simp
    then have big: "256 \<le> rat_of_int ?c" by linarith
    with near assms have v: "\<bar>v\<bar> = 511 / 2" by linarith
    from False have "saturate_uint8 ?c = 255" by (simp add: saturate_uint8_def)
    then have "rat_of_nat (unat (saturate_uint8 ?c)) = 255" by simp
    with v show ?thesis by simp
  qed
qed

lemma map2_map_left: "map2 f (map g xs) ys = map2 (\<lambda>x y. f (g x) y) xs ys"
  by (induction xs arbitrary: ys) (auto simp: zip_Cons1 split: list.splits)

lemma delta_pixelwise:
  "map2 (map2 absdiff_px) (convertScaleAbs bg) smoothed =
   map2 (map2 (\<lambda>v p. absdiff_px (saturate_uint8 (cvRound \<bar>v\<bar>)) p)) bg smoothed"
  by (simp add: convertScaleAbs_def map2_map_left)

lemma length_convertScaleAbs: "map length (convertScaleAbs bg) = map length bg"
  by (simp add: convertScaleAbs_def)

text \<open>
  C8. A call that finds a background model of the shape of the smoothed frame goes on
  from the difference image whose pixel is the absolute difference of the smoothed
  pixel and of the model value brought to 8 bits: \<open>cvRound\<close> of its magnitude,
  clamped to 0..255. For a magnitude of at most 255.5 that 8-bit value lies within one
  half of it: the nearest integer, not the integer part.
\<close>

theorem background_rounded_before_differencing:
  assumes "background det = Some bg"
    and "fr < next_ref h"
    and "preprocess_frame L det (cells h fr) = Inr smoothed"
    and "map length bg = map length smoothed"
  shows "detect_objects L det h fr =
           detect_from_delta L det (snd (copy h fr)) (next_ref h) smoothed bg
             (map2 (map2 (\<lambda>v p. absdiff_px (saturate_uint8 (cvRound \<bar>v\<bar>)) p)) bg smoothed) \<and>
         (\<forall>v. \<bar>v\<bar> \<le> 511 / 2 \<longrightarrow>
            \<bar>rat_of_nat (unat (saturate_uint8 (cvRound \<bar>v\<bar>))) - \<bar>v\<bar>\<bar> \<le> 1 / 2)"
proof (intro conjI allI impI)
  have c: "cells (snd (copy h fr)) fr = cells h fr"
    using assms(2) by (simp add: copy_def)
  have d: "frame_delta bg smoothed =
             Inr (map2 (map2 (\<lambda>v p. absdiff_px (saturate_uint8 (cvRound \<bar>v\<bar>)) p)) bg smoothed)"
    using assms(4) by (simp add: frame_delta_def absdiff_def length_convertScaleAbs delta_pixelwise)
  show "detect_objects L det h fr =
          detect_from_delta L det (snd (copy h fr)) (next_ref h) smoothed bg
            (map2 (map2 (\<lambda>v p. absdiff_px (saturate_uint8 (cvRound \<bar>v\<bar>)) p)) bg smoothed)"
    using assms(1,3) c d by (simp add: detect_objects_def split_def copy_fields)
  show "\<bar>rat_of_nat (unat (saturate_uint8 (cvRound \<bar>v\<bar>))) - \<bar>v\<bar>\<bar> \<le> 1 / 2"
    if "\<bar>v\<bar> \<le> 511 / 2" for v
    using that by (rule convertScaleAbs_px_near)
qed

lemma list_all_replicate: "list_all P (replicate n x) \<longleftrightarrow> n = 0 \<or> P x"
  by (induction n) auto

lemma shape_replicate:
  "shape0 (replicate n row) = int n" "0 < n \<Longrightarrow> shape1 (replicate n row) = int (length row)"
  by (cases n; simp add: shape0_def shape1_def)+

lemma heap24_fields: "cells heap24 0 = uniform24" "next_ref heap24 = 1"
  by (simp_all add: heap24_def)

lemma preprocess_uniform24:
  "blur_size det = 21 \<Longrightarrow>
   preprocess_frame sample_lib det uniform24 = Inr (replicate 24 (replicate 24 100))"
  by (simp add: preprocess_frame_def sample_lib_def sample_cvtColor_def sample_GaussianBlur_def
      uniform24_def shape_replicate luma_uniform)

lemma cvRound_darker: "cvRound (279 / 4) = 70"
proof -
  have "\<lfloor>279 / 4 :: rat\<rfloor> = 69" by (simp add: floor_eq_iff)
  then show ?thesis by (simp add: cvRound_def Let_def)
qed

lemma sample_no_foreground:
  "0 \<le> it \<Longrightarrow> dilate sample_lib (replicate n (replicate m 0)) it = Inr (replicate n (replicate m 0))"
  "findContours sample_lib (replicate n (replicate m 0)) = []"
  by (simp_all add: sample_lib_def sample_dilate_def sample_findContours_def list_all_replicate)

lemma sample_accumulate_uniform:
  "\<exists>bg'. accumulateWeighted sample_lib (float32 (replicate n (replicate m p)))
      (replicate n (replicate m v)) alpha = Inr bg'"
  by (simp add: sample_lib_def sample_accumulateWeighted_def float32_def)

theorem background_rounded_before_differencing_witness:
  "background seen_darker = Some (replicate 24 (replicate 24 (279 / 4))) \<and>
   0 < next_ref heap24 \<and>
   preprocess_frame sample_lib seen_darker (cells heap24 0) = Inr (replicate 24 (replicate 24 100)) \<and>
   map length (replicate 24 (replicate 24 (279 / 4 :: rat))) =
     map length (replicate 24 (replicate 24 (100 :: uint8))) \<and>
   saturate_uint8 (cvRound \<bar>279 / 4\<bar>) = 70 \<and>
   map2 (map2 (\<lambda>v p. absdiff_px (saturate_uint8 (cvRound \<bar>v\<bar>)) p))
     (replicate 24 (replicate 24 (279 / 4))) (replicate 24 (replicate 24 100))
     = replicate 24 (replicate 24 30) \<and>
   fst (detect_objects sample_lib seen_darker heap24 0) = Inr ([], 1)"
proof -
  have cfg: "threshold seen_darker = 30" "dilate_iterations seen_darker = 2" "blur_size seen_darker = 21"
    by (simp_all add: seen_darker_def default_detector_def new_detector_def)
  have h1: "background seen_darker = Some (replicate 24 (replicate 24 (279 / 4)))"
    by (simp add: seen_darker_def)
  have h2: "0 < next_ref heap24" by (simp add: heap24_fields)
  have h3: "preprocess_frame sample_lib seen_darker (cells heap24 0) = Inr (replicate 24 (replicate 24 100))"
    by (simp add: heap24_fields preprocess_uniform24 cfg)
  have h4: "map length (replicate 24 (replicate 24 (279 / 4 :: rat))) =
              map length (replicate 24 (replicate 24 (100 :: uint8)))"
    by simp
  have r': "saturate_uint8 (cvRound (279 / 4)) = 70"
    by (simp only: cvRound_darker) (simp add: saturate_uint8_def)
  then have r: "saturate_uint8 (cvRound \<bar>279 / 4\<bar>) = 70" by simp
  have d: "map2 (map2 (\<lambda>v p. absdiff_px (saturate_uint8 (cvRound \<bar>v\<bar>)) p))
             (replicate 24 (replicate 24 (279 / 4))) (replicate 24 (replicate 24 100))
           = replicate 24 (replicate 24 30)"
    by (simp add: r' absdiff_px_def)
  have t: "threshold_binary sample_lib (replicate 24 (replicate 24 30)) 30 255
             = Inr (replicate 24 (replicate 24 0))"
    by (simp add: threshold_binary_def ithresh_def)
  obtain bg' where acc: "accumulateWeighted sample_lib (float32 (replicate 24 (replicate 24 100)))
      (replicate 24 (replicate 24 (279 / 4))) (1 / 5) = Inr bg'"
    using sample_accumulate_uniform by blast
  have f: "fst (detect_from_delta sample_lib seen_darker h1 pf (replicate 24 (replicate 24 100))
             (replicate 24 (replicate 24 (279 / 4))) (replicate 24 (replicate 24 30))) = Inr ([], pf)" for h1 pf
    by (simp add: detect_from_delta_def cfg t sample_no_foreground acc)
  from background_rounded_before_differencing [OF h1 h2 h3 h4]
  have "detect_objects sample_lib seen_darker heap24 0 =
          detect_from_delta sample_lib seen_darker (snd (copy heap24 0)) (next_ref heap24)
            (replicate 24 (replicate 24 100)) (replicate 24 (replicate 24 (279 / 4)))
            (replicate 24 (replicate 24 30))"
    unfolding d by blast
  then have "fst (detect_objects sample_lib seen_darker heap24 0) = Inr ([], 1)"
    by (simp add: f heap24_fields)
  with h1 h2 h3 h4 r d show ?thesis by blast
qed

lemma map2_same: "map2 f xs xs = map (\<lambda>x. f x x) xs"
  by (induction xs) auto

lemma absdiff_same: "absdiff g g = Inr (blank g)"
proof -
  have "map2 absdiff_px row row = map (\<lambda>_. 0) row" for row
    by (simp add: map2_same absdiff_px_def)
  then show ?thesis
    by (simp add: absdiff_def blank_def map2_same)
qed



lemma cvRound_100: "cvRound 100 = 100"
  using cvRound_of_int [of 100] by simp



lemma convert_uniform24:
  "convertScaleAbs (replicate 24 (replicate 24 100)) = replicate 24 (replicate 24 100)"
  by (simp add: convertScaleAbs_def cvRound_100 saturate_uint8_def)

lemma delta_uniform24:
  "frame_delta (replicate 24 (replicate 24 100)) (replicate 24 (replicate 24 100))
     = Inr (replicate 24 (replicate 24 0))"
  by (simp add: frame_delta_def convert_uniform24 absdiff_same blank_def)

lemma threshold_uniform24:
  "threshold_binary sample_lib (replicate 24 (replicate 24 0)) (- 1) 255
     = Inr (replicate 24 (replicate 24 255))"
  "threshold_binary sample_lib (replicate 24 (replicate 24 0)) 2147483648 255
     = Inr (replicate 24 (replicate 24 255))"
  by (simp_all add: threshold_binary_def ithresh_def sample_lib_def sample_cvFloor_def)

lemma contours_uniform24:
  "findContours sample_lib (replicate 24 (replicate 24 255)) = [[(0, 0), (0, 23), (23, 23), (23, 0)]]"
  by (simp add: sample_lib_def sample_findContours_def list_all_replicate shape_replicate)

lemma region_uniform24:
  "min_area det = 500 \<Longrightarrow>
   fst (process_contours sample_lib det pf [[(0, 0), (0, 23), (23, 23), (23, 0)]] [] h1)
     = Inr [(0, 0, 24, 24)]"
  by (simp add: sample_lib_def sample_contourArea_def sample_boundingRect_def sample_rectangle_def)

lemma whole_frame_region:
  assumes b: "background det = Some (replicate 24 (replicate 24 100))"
    and cfg: "blur_size det = 21" "dilate_iterations det = 2" "min_area det = 500"
    and t: "threshold_binary sample_lib (replicate 24 (replicate 24 0)) (threshold det) 255
              = Inr (replicate 24 (replicate 24 255))"
  shows "fst (detect_objects sample_lib det heap24 0) = Inr ([(0, 0, 24, 24)], 1)"
proof -
  have dl: "dilate sample_lib (replicate 24 (replicate 24 255)) 2 = Inr (replicate 24 (replicate 24 255))"
    by (simp add: sample_lib_def sample_dilate_def)
  obtain bg' where acc: "accumulateWeighted sample_lib (float32 (replicate 24 (replicate 24 100)))
               (replicate 24 (replicate 24 100)) (1 / 5) = Inr bg'"
    using sample_accumulate_uniform by blast
  obtain r h2 where pc: "process_contours sample_lib det 1
       [[(0, 0), (0, 23), (23, 23), (23, 0)]] [] (snd (copy heap24 0)) = (r, h2)"
    by (cases "process_contours sample_lib det 1
       [[(0, 0), (0, 23), (23, 23), (23, 0)]] [] (snd (copy heap24 0))")
  with region_uniform24 [OF cfg(3), of 1 "snd (copy heap24 0)"] have r: "r = Inr [(0, 0, 24, 24)]"
    by simp
  have cc: "copy heap24 0 = (1, snd (copy heap24 0))" by (simp add: copy_def heap24_fields)
  have c1: "cells (snd (copy heap24 0)) 0 = uniform24" by (simp add: copy_def heap24_fields)
  have "detect_objects sample_lib det heap24 0 =
          (Inr ([(0, 0, 24, 24)], 1), det\<lparr>background := Some bg'\<rparr>, h2)"
    unfolding detect_objects_def detect_from_delta_def
    apply (subst cc)
    apply (simp only: prod.case Let_def c1 preprocess_uniform24 [OF cfg(1)] sum.case b option.case
        delta_uniform24 t cfg dl contours_uniform24 pc r acc)
    done
  then show ?thesis by simp
qed


text \<open>
  The same with the threshold 2^31, where the conversion to 32 bits gives a negative
  number on x86-64: the whole frame is reported again.
\<close>

lemma overflowing_threshold_region:
  "0 \<le> threshold overflowing_threshold \<and>
   background overflowing_threshold = Some (replicate 24 (replicate 24 100)) \<and>
   preprocess_frame sample_lib overflowing_threshold (cells heap24 0)
     = Inr (convertScaleAbs (replicate 24 (replicate 24 100))) \<and>
   fst (detect_objects sample_lib overflowing_threshold heap24 0) = Inr ([(0, 0, 24, 24)], 1)"
proof -
  have b: "background overflowing_threshold = Some (replicate 24 (replicate 24 100))"
    by (simp add: overflowing_threshold_def)
  have cfg: "blur_size overflowing_threshold = 21" "dilate_iterations overflowing_threshold = 2"
    "min_area overflowing_threshold = 500" "threshold overflowing_threshold = 2147483648"
    by (simp_all add: overflowing_threshold_def default_detector_def new_detector_def)
  have t: "threshold_binary sample_lib (replicate 24 (replicate 24 0)) (threshold overflowing_threshold) 255
             = Inr (replicate 24 (replicate 24 255))"
    by (simp only: cfg threshold_uniform24)
  from whole_frame_region [OF b cfg(1,2,3) t] b preprocess_uniform24 [OF cfg(1)] convert_uniform24 cfg(4)
  show ?thesis by (simp add: heap24_fields)
qed

end
